theory Spec2Isabelle
  imports Main
begin

section \<open>The Result value type of \<^verbatim>\<open>src/index.ts\<close>\<close>

text \<open>
  A Result is an object built by one of the two internal constructors of the library,
  \<^verbatim>\<open>createOk(value)\<close> or \<^verbatim>\<open>createErr(error)\<close>; each returns an object literal with
  a discriminant field \<^verbatim>\<open>ok\<close>, one payload field, and a table of methods that close
  over the object. An instance is therefore determined by the constructor that built it
  and by its payload: \<open>Ok v\<close> is the object literal of \<^verbatim>\<open>createOk\<close>, \<open>Err e\<close> the one
  of \<^verbatim>\<open>createErr\<close>. Fields and methods are functions on that datatype, one equation
  per object literal.
\<close>

datatype ('a, 'e) result = Ok 'a | Err 'e

definition createOk :: "'a \<Rightarrow> ('a, 'e) result" where
  "createOk v = Ok v"

definition createErr :: "'e \<Rightarrow> ('a, 'e) result" where
  "createErr e = Err e"

definition ok :: "'a \<Rightarrow> ('a, 'e) result" where
  "ok v = createOk v"

definition err :: "'e \<Rightarrow> ('a, 'e) result" where
  "err e = createErr e"

subsection \<open>Fields\<close>

text \<open>The field \<^verbatim>\<open>ok\<close>: \<^verbatim>\<open>ok: true\<close> in \<^verbatim>\<open>createOk\<close>, \<^verbatim>\<open>ok: false\<close> in \<^verbatim>\<open>createErr\<close>.\<close>

fun ok_field :: "('a, 'e) result \<Rightarrow> bool" where
  "ok_field (Ok v) = True"
| "ok_field (Err e) = False"

text \<open>
  The fields \<^verbatim>\<open>value\<close> and \<^verbatim>\<open>error\<close>; reading the one an instance does not have
  gives \<^verbatim>\<open>undefined\<close> in the source, \<open>None\<close> here.
\<close>

fun value_field :: "('a, 'e) result \<Rightarrow> 'a option" where
  "value_field (Ok v) = Some v"
| "value_field (Err e) = None"

fun error_field :: "('a, 'e) result \<Rightarrow> 'e option" where
  "error_field (Ok v) = None"
| "error_field (Err e) = Some e"

subsection \<open>Methods\<close>

text \<open>\<^verbatim>\<open>isOk()\<close> and \<^verbatim>\<open>isErr()\<close> return a literal in each object.\<close>

fun isOk_method :: "('a, 'e) result \<Rightarrow> bool" where
  "isOk_method (Ok v) = True"
| "isOk_method (Err e) = False"

fun isErr_method :: "('a, 'e) result \<Rightarrow> bool" where
  "isErr_method (Ok v) = False"
| "isErr_method (Err e) = True"

text \<open>
  \<^verbatim>\<open>map(fn)\<close>: \<^verbatim>\<open>createOk(fn(self.value))\<close> on a success, \<^verbatim>\<open>self\<close> on a failure.
  The callbacks are pure functions of their argument.
\<close>

fun map_res :: "('a \<Rightarrow> 'b) \<Rightarrow> ('a, 'e) result \<Rightarrow> ('b, 'e) result" where
  "map_res fn (Ok v) = createOk (fn v)"
| "map_res fn (Err e) = Err e"

text \<open>\<^verbatim>\<open>mapErr(fn)\<close>: \<^verbatim>\<open>self\<close> on a success, \<^verbatim>\<open>createErr(fn(self.error))\<close> on a failure.\<close>

fun mapErr :: "('e \<Rightarrow> 'f) \<Rightarrow> ('a, 'e) result \<Rightarrow> ('a, 'f) result" where
  "mapErr fn (Ok v) = Ok v"
| "mapErr fn (Err e) = createErr (fn e)"

text \<open>\<^verbatim>\<open>flatMap(fn)\<close>: \<^verbatim>\<open>fn(self.value)\<close> on a success, \<^verbatim>\<open>self\<close> on a failure.\<close>

fun flatMap :: "('a \<Rightarrow> ('b, 'e) result) \<Rightarrow> ('a, 'e) result \<Rightarrow> ('b, 'e) result" where
  "flatMap fn (Ok v) = fn v"
| "flatMap fn (Err e) = Err e"

subsection \<open>Type guards\<close>

text \<open>The exported functions \<^verbatim>\<open>isOk(result)\<close> and \<^verbatim>\<open>isErr(result)\<close> read the field.\<close>

definition isOk :: "('a, 'e) result \<Rightarrow> bool" where
  "isOk r = ok_field r"

definition isErr :: "('a, 'e) result \<Rightarrow> bool" where
  "isErr r = (\<not> ok_field r)"

section \<open>Runtime values\<close>

text \<open>
  Three places of the source inspect a payload at run time, whatever its static type:
  \<^verbatim>\<open>x instanceof Error\<close>, \<^verbatim>\<open>String(x)\<close> and \<^verbatim>\<open>x != null\<close>. Their arguments are
  ECMAScript values: the primitives, error objects (an \<^verbatim>\<open>Error\<close> or an instance of a
  subclass, with its \<^verbatim>\<open>name\<close> and \<^verbatim>\<open>message\<close>), ordinary objects that inherit
  \<^verbatim>\<open>Object.prototype.toString\<close>, and objects without a prototype
  (\<^verbatim>\<open>Object.create(null)\<close>). Numbers are the integer-valued ones.
\<close>

datatype jsval =
    JSUndefined
  | JSNull
  | JSBoolean bool
  | JSNumber int
  | JSString string
  | JSError string string
  | JSObject
  | JSObjectNullProto

text \<open>\<^verbatim>\<open>x instanceof Error\<close>.\<close>

fun instanceof_Error :: "jsval \<Rightarrow> bool" where
  "instanceof_Error (JSError name msg) = True"
| "instanceof_Error x = False"

text \<open>\<^verbatim>\<open>new Error(message)\<close>: an error object named \<^verbatim>\<open>Error\<close>.\<close>

definition new_Error :: "string \<Rightarrow> jsval" where
  "new_Error msg = JSError ''Error'' msg"

text \<open>The field \<^verbatim>\<open>message\<close> of an error object.\<close>

fun message :: "jsval \<Rightarrow> string option" where
  "message (JSError name msg) = Some msg"
| "message x = None"

text \<open>\<^verbatim>\<open>x != null\<close>: loose inequality, false exactly on \<^verbatim>\<open>null\<close> and \<^verbatim>\<open>undefined\<close>.\<close>

fun loose_neq_null :: "jsval \<Rightarrow> bool" where
  "loose_neq_null JSNull = False"
| "loose_neq_null JSUndefined = False"
| "loose_neq_null x = True"

text \<open>
  The decimal digits of a natural number, and \<^verbatim>\<open>Number.prototype.toString\<close> on an
  integer (plain digits, as ECMAScript prints integers below \<open>10\<^sup>2\<^sup>1\<close> in magnitude).
\<close>

fun decimal :: "nat \<Rightarrow> string" where
  "decimal n =
     (if n < 10 then [''0123456789'' ! n]
      else decimal (n div 10) @ [''0123456789'' ! (n mod 10)])"

declare decimal.simps [simp del]

definition Number_toString :: "int \<Rightarrow> string" where
  "Number_toString n = (if n < 0 then ''-'' @ decimal (nat (- n)) else decimal (nat n))"

text \<open>\<^verbatim>\<open>Error.prototype.toString\<close>: the name, the message, or both joined by a colon.\<close>

definition Error_toString :: "string \<Rightarrow> string \<Rightarrow> string" where
  "Error_toString name msg =
     (if name = [] then msg else if msg = [] then name else name @ '': '' @ msg)"

text \<open>
  The error that the conversion of an object to a primitive raises when the object has
  neither \<^verbatim>\<open>toString\<close> nor \<^verbatim>\<open>valueOf\<close>. ECMAScript fixes its class, \<^verbatim>\<open>TypeError\<close>; the
  wording of the message is the engine's, and no property below depends on it.
\<close>

definition TypeError_not_primitive :: jsval where
  "TypeError_not_primitive = JSError ''TypeError'' ''Cannot convert object to primitive value''"

text \<open>
  \<^verbatim>\<open>String(x)\<close>, the conversion to text. It raises that \<^verbatim>\<open>TypeError\<close> on an object
  without prototype, which has neither method; \<open>Inl\<close> is the raised value.
\<close>

fun String_js :: "jsval \<Rightarrow> jsval + string" where
  "String_js JSUndefined = Inr ''undefined''"
| "String_js JSNull = Inr ''null''"
| "String_js (JSBoolean b) = Inr (if b then ''true'' else ''false'')"
| "String_js (JSNumber n) = Inr (Number_toString n)"
| "String_js (JSString s) = Inr s"
| "String_js (JSError name msg) = Inr (Error_toString name msg)"
| "String_js JSObject = Inr ''[object Object]''"
| "String_js JSObjectNullProto = Inl TypeError_not_primitive"

section \<open>Terminal operation and adapters\<close>

text \<open>
  \<^verbatim>\<open>unwrap()\<close>: \<^verbatim>\<open>self.value\<close> on a success; on a failure
  \<^verbatim>\<open>throw self.error instanceof Error ? self.error : new Error(String(self.error))\<close>.
  \<open>Inl\<close> is the value thrown, \<open>Inr\<close> the value returned.
\<close>

fun unwrap :: "('a, jsval) result \<Rightarrow> jsval + 'a" where
  "unwrap (Ok v) = Inr v"
| "unwrap (Err e) =
     (if instanceof_Error e then Inl e
      else (case String_js e of
              Inl raised \<Rightarrow> Inl raised
            | Inr text \<Rightarrow> Inl (new_Error text)))"

text \<open>
  \<^verbatim>\<open>trySync(fn)\<close>. The computation \<^verbatim>\<open>fn\<close> either returns a value (\<open>Inr\<close>) or throws
  one (\<open>Inl\<close>); so does \<^verbatim>\<open>trySync\<close> itself, whose \<^verbatim>\<open>catch\<close> block evaluates
  \<^verbatim>\<open>err(e instanceof Error ? e : new Error(String(e)))\<close> outside any \<^verbatim>\<open>try\<close>.
\<close>

definition trySync :: "(unit \<Rightarrow> jsval + 'a) \<Rightarrow> jsval + ('a, jsval) result" where
  "trySync fn =
     (case fn () of
        Inr v \<Rightarrow> Inr (ok v)
      | Inl e \<Rightarrow>
          (if instanceof_Error e then Inr (err e)
           else (case String_js e of
                   Inl raised \<Rightarrow> Inl raised
                 | Inr text \<Rightarrow> Inr (err (new_Error text)))))"

text \<open>\<^verbatim>\<open>fromNullable(value, error)\<close>: \<^verbatim>\<open>value != null ? ok(value) : err(error)\<close>.\<close>

definition fromNullable :: "jsval \<Rightarrow> 'e \<Rightarrow> (jsval, 'e) result" where
  "fromNullable v error = (if loose_neq_null v then ok v else err error)"

section \<open>Collection combinators\<close>

text \<open>
  \<^verbatim>\<open>all(results)\<close>: the loop over the array, with the array \<^verbatim>\<open>values\<close> it pushes to;
  an element whose \<^verbatim>\<open>ok\<close> is false is returned as it is.
\<close>

fun all_loop :: "'a list \<Rightarrow> ('a, 'e) result list \<Rightarrow> ('a list, 'e) result" where
  "all_loop vals [] = ok vals"
| "all_loop vals (Err e # rest) = Err e"
| "all_loop vals (Ok v # rest) = all_loop (vals @ [v]) rest"

definition all :: "('a, 'e) result list \<Rightarrow> ('a list, 'e) result" where
  "all results = all_loop [] results"

text \<open>
  \<^verbatim>\<open>any(results)\<close>: the guard on the empty array, whose error is built on the spot and
  cast to the error type; the loop that returns the first element whose \<^verbatim>\<open>isOk()\<close>
  is true; and the last element otherwise.
\<close>

fun any_loop :: "('a, 'e) result list \<Rightarrow> ('a, 'e) result option" where
  "any_loop [] = None"
| "any_loop (r # rest) = (if isOk_method r then Some r else any_loop rest)"

definition any :: "('a, jsval) result list \<Rightarrow> ('a, jsval) result" where
  "any results =
     (if length results = 0 then err (new_Error ''any() called with empty array'')
      else (case any_loop results of
              Some r \<Rightarrow> r
            | None \<Rightarrow> results ! (length results - 1)))"

text \<open>
  Modelled from the spec: \<^verbatim>\<open>partition\<close> is imported and exercised by the tests, but its
  definition is not among the sources. The specification describes a single left-to-right
  scan that appends each success payload to one sequence and each failure payload to
  another, and returns the pair.
\<close>

fun partition_loop ::
  "'a list \<Rightarrow> 'e list \<Rightarrow> ('a, 'e) result list \<Rightarrow> 'a list \<times> 'e list" where
  "partition_loop oks errs [] = (oks, errs)"
| "partition_loop oks errs (Ok v # rest) = partition_loop (oks @ [v]) errs rest"
| "partition_loop oks errs (Err e # rest) = partition_loop oks (errs @ [e]) rest"

definition partition_results :: "('a, 'e) result list \<Rightarrow> 'a list \<times> 'e list" where
  "partition_results results = partition_loop [] [] results"

section \<open>Instances and their identity\<close>

text \<open>
  Whether an operation returns \<^verbatim>\<open>self\<close> or a new object is a question about object
  identity, which the datatype above does not see. Here every instance lives at an address
  of a store; \<^verbatim>\<open>createOk\<close> and \<^verbatim>\<open>createErr\<close> allocate the object literal at the next
  free address and return that address, and a method receives the address of its
  receiver. The fields of the objects are \<^verbatim>\<open>readonly\<close> and no operation of the library
  assigns to one, so the only effect on the store is allocation. Payloads are untyped at
  run time: one type \<open>'v\<close> holds them all. A reference always designates an object: the
  addresses of a store \<open>h\<close> are the numbers below \<open>length h\<close>, and the properties below
  are about receivers at such an address.
\<close>

type_synonym ref = nat

type_synonym 'v heap = "('v, 'v) result list"

definition alloc :: "('v, 'v) result \<Rightarrow> 'v heap \<Rightarrow> ref \<times> 'v heap" where
  "alloc obj h = (length h, h @ [obj])"

definition createOk_at :: "'v \<Rightarrow> 'v heap \<Rightarrow> ref \<times> 'v heap" where
  "createOk_at v h = alloc (createOk v) h"

definition createErr_at :: "'v \<Rightarrow> 'v heap \<Rightarrow> ref \<times> 'v heap" where
  "createErr_at e h = alloc (createErr e) h"

text \<open>
  \<^verbatim>\<open>map\<close>, \<^verbatim>\<open>mapErr\<close> and \<^verbatim>\<open>flatMap\<close> on the instance at address \<open>self\<close>. The callback
  of \<^verbatim>\<open>flatMap\<close> returns a Result, that is an address, and may allocate on its way.
\<close>

definition map_at :: "('v \<Rightarrow> 'v) \<Rightarrow> ref \<Rightarrow> 'v heap \<Rightarrow> ref \<times> 'v heap" where
  "map_at fn self h =
     (case h ! self of
        Ok v \<Rightarrow> createOk_at (fn v) h
      | Err e \<Rightarrow> (self, h))"

definition mapErr_at :: "('v \<Rightarrow> 'v) \<Rightarrow> ref \<Rightarrow> 'v heap \<Rightarrow> ref \<times> 'v heap" where
  "mapErr_at fn self h =
     (case h ! self of
        Ok v \<Rightarrow> (self, h)
      | Err e \<Rightarrow> createErr_at (fn e) h)"

definition flatMap_at ::
  "('v \<Rightarrow> 'v heap \<Rightarrow> ref \<times> 'v heap) \<Rightarrow> ref \<Rightarrow> 'v heap \<Rightarrow> ref \<times> 'v heap" where
  "flatMap_at fn self h =
     (case h ! self of
        Ok v \<Rightarrow> fn v h
      | Err e \<Rightarrow> (self, h))"

text \<open>
  \<open>preserved h h'\<close>: every instance of the store \<open>h\<close> is still in \<open>h'\<close>, at its address
  and with its fields; \<open>h'\<close> may hold new instances after them.
\<close>

definition preserved :: "'v heap \<Rightarrow> 'v heap \<Rightarrow> bool" where
  "preserved h h' = (take (length h) h' = h)"

section \<open>Properties of the value type\<close>

subsection \<open>Transformations\<close>

text \<open>
  Claim C5. The functor composition law: for every Result \<open>r\<close> and functions \<open>f\<close>, \<open>g\<close>,
  mapping \<open>f\<close> and then \<open>g\<close> equals mapping the composition \<open>g \<circ> f\<close> once.
\<close>

theorem map_composition:
  "map_res g (map_res f r) = map_res (g \<circ> f) r"
  by (cases r) (simp_all add: createOk_def)

text \<open>
  Claim C4. \<^verbatim>\<open>flatMap\<close> is associative: chaining \<open>f\<close> and then \<open>g\<close> equals chaining the
  single function that applies \<open>f\<close> and chains \<open>g\<close> on its result.
\<close>

theorem flatMap_assoc:
  "flatMap g (flatMap f r) = flatMap (\<lambda>x. flatMap g (f x)) r"
  by (cases r) simp_all

subsection \<open>Discriminant, methods and type guards\<close>

text \<open>
  Claim C10. The methods \<^verbatim>\<open>isOk()\<close> and \<^verbatim>\<open>isErr()\<close> agree with the discriminant and with
  each other: \<^verbatim>\<open>r.isOk()\<close> is true exactly when the field \<^verbatim>\<open>ok\<close> is, \<^verbatim>\<open>r.isErr()\<close> is its
  negation, and the exported type guards return what the methods return.
\<close>

theorem isOk_isErr_consistent:
  "isOk_method r = ok_field r
   \<and> isErr_method r = (\<not> isOk_method r)
   \<and> isOk r = isOk_method r
   \<and> isErr r = isErr_method r"
  by (cases r) (simp_all add: isOk_def isErr_def)

section \<open>Properties of the instances\<close>

lemma preserved_refl: "preserved h h"
  by (simp add: preserved_def)

lemma preserved_append: "preserved h (h @ objs)"
  by (simp add: preserved_def)

lemma preserved_nth: "preserved h h' \<Longrightarrow> i < length h \<Longrightarrow> h' ! i = h ! i"
  by (metis nth_take preserved_def)

text \<open>
  The instance an operation returns holds what the operation on values computes from the
  receiver's fields: the store refines the datatype.
\<close>

lemma map_at_refines:
  "self < length h \<Longrightarrow>
   snd (map_at fn self h) ! fst (map_at fn self h) = map_res fn (h ! self)"
  by (cases "h ! self") (simp_all add: map_at_def createOk_at_def alloc_def)

lemma mapErr_at_refines:
  "self < length h \<Longrightarrow>
   snd (mapErr_at fn self h) ! fst (mapErr_at fn self h) = mapErr fn (h ! self)"
  by (cases "h ! self") (simp_all add: mapErr_at_def createErr_at_def alloc_def)

text \<open>
  Claim C3, as amended. For a receiver at a valid address \<open>self\<close> of the store \<open>h\<close>:
  \<^verbatim>\<open>map\<close>, \<^verbatim>\<open>mapErr\<close> and \<^verbatim>\<open>flatMap\<close> leave every existing instance, the receiver
  among them, as it was (for \<^verbatim>\<open>flatMap\<close>, provided its callback does); \<^verbatim>\<open>map\<close> on a
  success and \<^verbatim>\<open>mapErr\<close> on a failure return a new instance, at the address \<open>length h\<close>
  that no instance had before; \<^verbatim>\<open>map\<close> on a failure, \<^verbatim>\<open>mapErr\<close> on a success and
  \<^verbatim>\<open>flatMap\<close> on a failure return the receiver itself; \<^verbatim>\<open>flatMap\<close> on a success returns
  the instance its callback returns.
\<close>

theorem transformations_instances:
  assumes "self < length h"
    and "\<And>v h0. preserved h0 (snd (k v h0))"
  shows "preserved h (snd (map_at f self h))
       \<and> preserved h (snd (mapErr_at g self h))
       \<and> preserved h (snd (flatMap_at k self h))
       \<and> fst (map_at f self h) = (if isOk_method (h ! self) then length h else self)
       \<and> fst (mapErr_at g self h) = (if isErr_method (h ! self) then length h else self)
       \<and> (fst (map_at f self h) = self) = isErr_method (h ! self)
       \<and> (fst (mapErr_at g self h) = self) = isOk_method (h ! self)
       \<and> flatMap_at k self h = (case h ! self of Ok v \<Rightarrow> k v h | Err e \<Rightarrow> (self, h))"
proof (cases "h ! self")
  case (Ok v)
  then show ?thesis
    using assms(1) assms(2) [of h v]
    by (simp add: map_at_def mapErr_at_def flatMap_at_def createOk_at_def
        preserved_append preserved_refl alloc_def)
next
  case (Err e)
  then show ?thesis
    using assms(1)
    by (simp add: map_at_def mapErr_at_def flatMap_at_def createErr_at_def
        preserved_append preserved_refl alloc_def)
qed

text \<open>
  The theorem at the store of two instances \<open>Ok 1\<close> and \<open>Err 2\<close>, with the receiver at
  address 0 and \<^verbatim>\<open>createErr\<close> as the callback of \<^verbatim>\<open>flatMap\<close>.
\<close>

theorem transformations_instances_witness:
  "preserved [Ok (1::nat), Err 2] (snd (map_at Suc 0 [Ok 1, Err 2]))
   \<and> preserved [Ok (1::nat), Err 2] (snd (mapErr_at Suc 0 [Ok 1, Err 2]))
   \<and> preserved [Ok (1::nat), Err 2] (snd (flatMap_at createErr_at 0 [Ok 1, Err 2]))
   \<and> fst (map_at Suc 0 [Ok (1::nat), Err 2]) = 2
   \<and> fst (mapErr_at Suc 0 [Ok (1::nat), Err 2]) = 0
   \<and> fst (map_at Suc 0 [Ok (1::nat), Err 2]) \<noteq> 0
   \<and> flatMap_at createErr_at 0 [Ok (1::nat), Err 2] = (2, [Ok 1, Err 2, Err 1])"
proof -
  have valid: "(0::nat) < length [Ok (1::nat), Err (2::nat)]"
    by simp
  have callback: "\<And>(v::nat) h0. preserved h0 (snd (createErr_at v h0))"
    by (simp add: createErr_at_def alloc_def preserved_append)
  show ?thesis
    using transformations_instances
      [where self = 0 and h = "[Ok (1::nat), Err 2]" and k = createErr_at
         and f = Suc and g = Suc, OF valid callback]
    by (simp add: createErr_at_def alloc_def createErr_def preserved_def)
qed

text \<open>
  Claim C3 as it was stated fails: a failure built at address 0 of the empty store and
  then mapped gives address 0 again, and so does a success under \<^verbatim>\<open>mapErr\<close>; no
  instance is allocated.
\<close>

theorem transformation_returns_receiver:
  "createErr_at (7::nat) [] = (0, [Err 7])
   \<and> map_at Suc 0 [Err 7] = (0, [Err 7])
   \<and> createOk_at (7::nat) [] = (0, [Ok 7])
   \<and> mapErr_at Suc 0 [Ok 7] = (0, [Ok 7])"
  by (simp add: createErr_at_def createErr_def createOk_at_def createOk_def alloc_def
      map_at_def mapErr_at_def)

section \<open>Properties of the terminal operation and the adapters\<close>

subsection \<open>\<^verbatim>\<open>unwrap\<close>\<close>

lemma unwrap_ok: "unwrap (ok v) = Inr v"
  by (simp add: ok_def createOk_def)

lemma unwrap_err_Error: "instanceof_Error e \<Longrightarrow> unwrap (err e) = Inl e"
  by (simp add: err_def createErr_def)

lemma unwrap_err_text:
  "\<not> instanceof_Error e \<Longrightarrow> String_js e = Inr text \<Longrightarrow>
   unwrap (err e) = Inl (new_Error text)"
  by (simp add: err_def createErr_def)

lemma message_new_Error: "message (new_Error text) = Some text"
  by (simp add: new_Error_def)

lemma unwrap_err_throws: "\<exists>thrown. unwrap (err e) = Inl thrown"
  by (cases "String_js e") (simp_all add: err_def createErr_def)

lemma unwrap_tests:
  "unwrap (ok (JSNumber 42)) = Inr (JSNumber 42)"
  "unwrap (err (JSError ''Error'' ''test error'') :: (jsval, jsval) result)
     = Inl (JSError ''Error'' ''test error'')"
  "unwrap (err (JSString ''string error'') :: (jsval, jsval) result)
     = Inl (JSError ''Error'' ''string error'')"
  by (simp_all add: ok_def err_def createOk_def createErr_def new_Error_def)

text \<open>
  Claim C2 at a payload that has no text: \<^verbatim>\<open>err(Object.create(null)).unwrap()\<close>. The
  payload is not an \<^verbatim>\<open>Error\<close>, so \<^verbatim>\<open>String(self.error)\<close> is evaluated and raises; what
  \<^verbatim>\<open>unwrap\<close> throws is that \<^verbatim>\<open>TypeError\<close>, which holds nothing of the payload.
\<close>

theorem unwrap_payload_without_text:
  "unwrap (err JSObjectNullProto) = Inl TypeError_not_primitive"
  by (simp add: err_def createErr_def)

subsection \<open>\<^verbatim>\<open>trySync\<close>\<close>

lemma trySync_returns: "fn () = Inr v \<Longrightarrow> trySync fn = Inr (Ok v)"
  by (simp add: trySync_def ok_def createOk_def)

lemma trySync_raised_Error:
  "fn () = Inl e \<Longrightarrow> instanceof_Error e \<Longrightarrow> trySync fn = Inr (Err e)"
  by (simp add: trySync_def err_def createErr_def)

lemma trySync_raised_text:
  "fn () = Inl e \<Longrightarrow> \<not> instanceof_Error e \<Longrightarrow> String_js e = Inr text \<Longrightarrow>
   trySync fn = Inr (Err (new_Error text))"
  by (simp add: trySync_def err_def createErr_def)

lemma trySync_tests:
  "trySync (\<lambda>u. Inl (JSString ''string throw'') :: jsval + jsval)
     = Inr (Err (JSError ''Error'' ''string throw''))"
  "trySync (\<lambda>u. Inr (JSNumber 1) :: jsval + jsval) = Inr (Ok (JSNumber 1))"
  by (simp_all add: trySync_def ok_def err_def createOk_def createErr_def new_Error_def)

lemma trySync_raised_number:
  "trySync (\<lambda>u. Inl (JSNumber (- 42)) :: jsval + jsval)
     = Inr (Err (JSError ''Error'' ''-42''))"
  by code_simp

text \<open>
  Claim C8 at a computation that raises a value without text:
  \<^verbatim>\<open>trySync(() => { throw Object.create(null) })\<close>. The \<^verbatim>\<open>catch\<close> block evaluates
  \<^verbatim>\<open>String(e)\<close>, which raises, and nothing encloses the block: \<^verbatim>\<open>trySync\<close> itself
  raises the \<^verbatim>\<open>TypeError\<close> and returns no Result.
\<close>

theorem trySync_raises:
  "trySync (\<lambda>u. Inl JSObjectNullProto) = Inl TypeError_not_primitive"
  by (simp add: trySync_def)

subsection \<open>\<^verbatim>\<open>fromNullable\<close>\<close>

text \<open>
  Claim C9. \<^verbatim>\<open>fromNullable(value, error)\<close> is the success holding \<open>value\<close> unless
  \<open>value\<close> is \<^verbatim>\<open>null\<close> or \<^verbatim>\<open>undefined\<close>, and then the failure holding \<open>error\<close>; zero,
  the empty text and \<^verbatim>\<open>false\<close> are present.
\<close>

theorem fromNullable_present_or_absent:
  "fromNullable v e = (if v = JSNull \<or> v = JSUndefined then Err e else Ok v)
   \<and> fromNullable (JSNumber 0) e = Ok (JSNumber 0)
   \<and> fromNullable (JSString []) e = Ok (JSString [])
   \<and> fromNullable (JSBoolean False) e = Ok (JSBoolean False)"
  by (cases v) (simp_all add: fromNullable_def ok_def err_def createOk_def createErr_def)

section \<open>Properties of the collection combinators\<close>

text \<open>
  Every sequence of Results is a run of successes, followed or not by a first failure
  and whatever comes after it.
\<close>

lemma results_shape:
  "(\<exists>vs. results = map Ok vs) \<or> (\<exists>vs e rest. results = map Ok vs @ Err e # rest)"
proof (induction results)
  case Nil
  then show ?case by simp
next
  case (Cons r results)
  show ?case
  proof (cases r)
    case (Err e)
    then have "r # results = map Ok [] @ Err e # results" by simp
    then have "\<exists>vs e rest. r # results = map Ok vs @ Err e # rest" by (intro exI)
    then show ?thesis by (rule disjI2)
  next
    case (Ok v)
    from Cons.IH show ?thesis
    proof
      assume "\<exists>vs. results = map Ok vs"
      then obtain vs where "results = map Ok vs" ..
      with Ok have "r # results = map Ok (v # vs)" by simp
      then have "\<exists>vs. r # results = map Ok vs" by (intro exI)
      then show ?thesis by (rule disjI1)
    next
      assume "\<exists>vs e rest. results = map Ok vs @ Err e # rest"
      then obtain vs e rest where "results = map Ok vs @ Err e # rest" by blast
      with Ok have "r # results = map Ok (v # vs) @ Err e # rest" by simp
      then have "\<exists>vs e rest. r # results = map Ok vs @ Err e # rest" by (intro exI)
      then show ?thesis by (rule disjI2)
    qed
  qed
qed

subsection \<open>\<^verbatim>\<open>all\<close>\<close>

lemma all_loop_spec:
  "all_loop acc (map Ok vs @ Err e # rest) = Err e"
  "all_loop acc (map Ok vs) = Ok (acc @ vs)"
  by (induction vs arbitrary: acc) (simp_all add: ok_def createOk_def)

lemma all_tests:
  "all [ok (1::int), ok 2, ok 3 :: (int, string) result] = Ok [1, 2, 3]"
  "all [ok (1::int), err ''fail'', ok 3] = Err ''fail''"
  by (simp_all add: all_def ok_def err_def createOk_def createErr_def)

text \<open>
  Claim C6. When successes \<open>vs\<close> are followed by a failure, \<^verbatim>\<open>all\<close> returns that failure,
  whatever comes after it; when every element is a success it returns the success holding
  their payloads in input order; on the empty sequence it returns the success holding the
  empty sequence.
\<close>

theorem all_first_failure_or_all_values:
  "all (map Ok vs @ Err e # rest) = Err e
   \<and> all (map Ok vs) = Ok vs
   \<and> all [] = Ok []"
  by (simp add: all_def all_loop_spec ok_def createOk_def)

subsection \<open>\<^verbatim>\<open>any\<close>\<close>

lemma any_loop_first_ok: "any_loop (map Err es @ Ok v # rest) = Some (Ok v)"
  by (induction es) simp_all

lemma any_loop_no_ok: "any_loop (map Err es) = None"
  by (induction es) simp_all

lemma any_tests:
  "any [err (JSString ''a''), ok (42::int), ok 99] = Ok 42"
  "any [err (JSString ''a''), err (JSString ''b''), err (JSString ''c'')
          :: (int, jsval) result] = Err (JSString ''c'')"
  by (simp_all add: any_def ok_def err_def createOk_def createErr_def)

text \<open>
  Claim C7. When failures \<open>es\<close> are followed by a success, \<^verbatim>\<open>any\<close> returns that success,
  the first of the sequence; when the sequence is not empty and every element is a
  failure it returns the last one; on the empty sequence it returns a failure whose
  payload is the error it builds itself. It returns a Result in every case.
\<close>

theorem any_first_success_or_last_failure:
  "any (map Err es @ Ok v # rest) = Ok v
   \<and> any (map Err (es @ [e])) = Err e
   \<and> any [] = Err (JSError ''Error'' ''any() called with empty array'')"
proof -
  have no_ok: "any_loop (map Err es @ [Err e]) = None"
    using any_loop_no_ok [of "es @ [e]"] by simp
  have "any (map Err (es @ [e])) = Err e"
    by (simp add: any_def no_ok nth_append)
  then show ?thesis
    by (simp add: any_def any_loop_first_ok err_def createErr_def new_Error_def)
qed

subsection \<open>\<^verbatim>\<open>partition\<close>\<close>

lemma partition_loop_spec:
  "partition_loop oks errs results =
     (oks @ List.map_filter value_field results, errs @ List.map_filter error_field results)"
  by (induction oks errs results rule: partition_loop.induct) simp_all

lemma partition_tests:
  "partition_results [ok (1::int), ok 2, ok 3 :: (int, string) result] = ([1, 2, 3], [])"
  "partition_results [err ''a'', err ''b'', err ''c'' :: (int, string) result]
     = ([], [''a'', ''b'', ''c''])"
  "partition_results [ok (3::int), err ''x'', ok 1, err ''y'', ok 2]
     = ([3, 1, 2], [''x'', ''y''])"
  by (simp_all add: partition_results_def ok_def err_def createOk_def createErr_def)

text \<open>
  Claim C1. \<^verbatim>\<open>partition\<close> returns, for every sequence of Results, the payloads of its
  successes in input order and the payloads of its failures in input order; it returns a
  pair in every case, the pair of two empty sequences on the empty input, and
  \<open>([1, 2], [a, b])\<close> on the sequence of the specification's example.
\<close>

theorem partition_order_preserving:
  "partition_results results =
     (List.map_filter value_field results, List.map_filter error_field results)
   \<and> partition_results [] = ([], [])
   \<and> partition_results [Ok (1::int), Err ''a'', Ok 2, Err ''b''] = ([1, 2], [''a'', ''b''])"
  by (simp add: partition_results_def partition_loop_spec)

end
